theory Spec2Isabelle
  imports Complex_Main "HOL-Library.Multiset" "HOL-Library.Log_Nat"
begin

section \<open>Federated averaging on MNIST (\<open>Mnist/base.py\<close>)\<close>

text \<open>
  The program trains one Keras model by federated averaging: \<open>next_fn\<close> broadcasts the
  global weights, every client runs \<open>local_train\<close> on its own dataset, the server takes
  \<open>tff.federated_mean\<close> of the local weights and stores the mean in a fresh model
  (\<open>global_update\<close>). The embedding keeps the functions of the source by name. The
  TensorFlow and TensorFlow-Federated primitives they call (\<open>Variable.assign\<close>,
  \<open>tf.nest.map_structure\<close>, \<open>SGD.apply_gradients\<close>, \<open>federated_broadcast\<close>,
  \<open>federated_map\<close>, \<open>federated_mean\<close>) are library code; each is given by a
  definition of its documented behaviour. The network itself (forward pass, loss and
  automatic differentiation) is a parameter.
\<close>

subsection \<open>Tensor elements\<close>

text \<open>
  A \<open>float32\<close> is either a finite number or one of \<open>inf\<close>, \<open>-inf\<close>, \<open>nan\<close>.
  Finite values are idealised as reals (no rounding, no overflow); the three non-finite
  values are one element \<open>NonFin\<close>. Every operation the program uses (\<open>+\<close>, \<open>-\<close>,
  \<open>*\<close>) yields a non-finite result as soon as one operand is non-finite, which is what
  IEEE arithmetic does (\<open>inf - inf\<close> and \<open>0 * inf\<close> are \<open>nan\<close>). Exact arithmetic
  is what the statements on the structure of the computation need; where rounding
  decides, the binary32 operations further down are used.
\<close>

datatype fl = Fin real | NonFin

instantiation fl :: "{comm_monoid_add, minus, times}"
begin

definition zero_fl :: fl where
  "zero_fl = Fin 0"

fun plus_fl :: "fl \<Rightarrow> fl \<Rightarrow> fl" where
  "plus_fl (Fin a) (Fin b) = Fin (a + b)"
| "plus_fl _ _ = NonFin"

fun minus_fl :: "fl \<Rightarrow> fl \<Rightarrow> fl" where
  "minus_fl (Fin a) (Fin b) = Fin (a - b)"
| "minus_fl _ _ = NonFin"

fun times_fl :: "fl \<Rightarrow> fl \<Rightarrow> fl" where
  "times_fl (Fin a) (Fin b) = Fin (a * b)"
| "times_fl _ _ = NonFin"

instance
proof
  fix x y z :: fl
  show "0 + x = x"
    by (cases x) (simp_all add: zero_fl_def)
  show "x + y = y + x"
    by (cases x; cases y; simp)
  show "x + y + z = x + (y + z)"
    by (cases x; cases y; cases z; simp)
qed

end

subsection \<open>Parameter vectors, hyperparameters, errors\<close>

text \<open>
  A tensor is modelled by its flattened list of elements and its shape by the number of
  elements: every operation of the program on tensors is element-wise. The trainable
  variables of a model are a list of tensors, one per layer variable.
\<close>

type_synonym tensor = "fl list"
type_synonym weights = "tensor list"

definition shapes :: "weights \<Rightarrow> nat list" where
  "shapes w = map length w"

text \<open>The module-level hyperparameters (lines 11 to 16), read by \<open>train\<close> and \<open>local_train\<close>.\<close>

record config =
  EXPERIMENTS :: nat
  EPOCHS :: nat
  ROUNDS :: nat
  BATCH_SIZE :: nat
  LEARNING_RATE :: real
  CLIENTS_NUM :: nat

definition hyperparameters :: config where
  "hyperparameters =
     \<lparr>EXPERIMENTS = 4, EPOCHS = 5, ROUNDS = 10, BATCH_SIZE = 32,
      LEARNING_RATE = 2 / 100, CLIENTS_NUM = 6\<rparr>"

text \<open>
  The program defines no exception of its own; what can fail are the library calls.
  The failures are classified by the four kinds of the specification:
  \<^item> \<open>ShapeMismatchError\<close>: the \<open>ValueError\<close> of \<open>Variable.assign\<close> and of
    \<open>tf.nest.map_structure\<close> on tensors or structures of different shape, and the
    \<open>TypeError\<close> of a TFF computation called on an argument that is not of its declared
    type;
  \<^item> \<open>AggregationError\<close>: the \<open>RuntimeError\<close> of \<open>federated_mean\<close> over an empty group
    of clients.
  No statement of the program produces the other two kinds.
\<close>

datatype error = ConfigurationError | ShapeMismatchError | AggregationError | NumericError

subsection \<open>The object store\<close>

text \<open>
  \<open>tf.Variable\<close>s are mutable objects that Python names refer to, so the variables of a
  model and the tensors handed to \<open>train\<close> live in a store: a reference is an index
  into the list of stored tensors, and allocation appends.
\<close>

type_synonym ref = nat
type_synonym heap = "tensor list"

definition alloc_all :: "tensor list \<Rightarrow> heap \<Rightarrow> ref list \<times> heap" where
  "alloc_all vs h = ([length h ..< length h + length vs], h @ vs)"

definition read_all :: "heap \<Rightarrow> ref list \<Rightarrow> weights" where
  "read_all h rs = map (\<lambda>r. h ! r) rs"

record model =
  trainable_variables :: "ref list"

text \<open>
  \<open>model_tff()\<close> builds a new Keras model: fresh variables, holding the values \<open>init\<close>
  that the layer initialisers chose.
\<close>

definition model_tff :: "weights \<Rightarrow> heap \<Rightarrow> model \<times> heap" where
  "model_tff init h =
     (let (rs, h') = alloc_all init h in (\<lparr>trainable_variables = rs\<rparr>, h'))"

text \<open>\<open>model_init\<close> (lines 61 to 64) returns the values of the variables of a new model.\<close>

definition model_init :: "weights \<Rightarrow> weights" where
  "model_init init =
     (let (model, h) = model_tff init [] in read_all h (trainable_variables model))"

definition model_weights_type :: "weights \<Rightarrow> nat list" where
  "model_weights_type init = shapes (model_init init)"

text \<open>\<open>x.assign(y)\<close>: the variable \<open>x\<close> takes the value of \<open>y\<close>; the shapes must agree.\<close>

definition assign :: "ref \<Rightarrow> ref \<Rightarrow> heap \<Rightarrow> error + heap" where
  "assign x y h =
     (if length (h ! x) = length (h ! y) then Inr (h[x := h ! y])
      else Inl ShapeMismatchError)"

fun assign_all :: "(ref \<times> ref) list \<Rightarrow> heap \<Rightarrow> error + heap" where
  "assign_all [] h = Inr h"
| "assign_all ((x, y) # ps) h =
     (case assign x y h of Inl e \<Rightarrow> Inl e | Inr h' \<Rightarrow> assign_all ps h')"

text \<open>
  \<open>tf.nest.map_structure(lambda x, y: x.assign(y), xs, ys)\<close>: the two structures must
  have the same number of entries; then the entries are assigned pairwise, in order.
\<close>

definition map_structure_assign :: "ref list \<Rightarrow> ref list \<Rightarrow> heap \<Rightarrow> error + heap" where
  "map_structure_assign xs ys h =
     (if length xs \<noteq> length ys then Inl ShapeMismatchError else assign_all (zip xs ys) h)"

subsection \<open>The optimizer\<close>

text \<open>
  \<open>tf.optimizers.SGD(learning_rate=lr)\<close> has momentum 0: \<open>apply_gradients\<close> replaces
  each variable \<open>v\<close> of a pair \<open>(g, v)\<close> by \<open>v - lr * g\<close>, element by element.
\<close>

datatype optimizer = SGD real

definition sgd_update :: "real \<Rightarrow> tensor \<Rightarrow> tensor \<Rightarrow> tensor" where
  "sgd_update lr var g = map2 (\<lambda>v d. v - Fin lr * d) var g"

fun apply_gradients :: "optimizer \<Rightarrow> (tensor \<times> ref) list \<Rightarrow> heap \<Rightarrow> heap" where
  "apply_gradients opt [] h = h"
| "apply_gradients (SGD lr) ((g, v) # gvs) h =
     apply_gradients (SGD lr) gvs (h[v := sgd_update lr (h ! v) g])"

subsection \<open>Local training\<close>

text \<open>
  The network is a parameter: \<open>gf w batch\<close> is the loss of the forward pass on
  \<open>batch\<close> with the variables at \<open>w\<close>, and the gradient of that loss in the variables
  (\<open>model.forward_pass\<close> under \<open>tf.GradientTape\<close>, then \<open>tape.gradient\<close>).
\<close>

type_synonym 'b gradient_fn = "weights \<Rightarrow> 'b \<Rightarrow> fl \<times> weights"

text \<open>The inner loop \<open>for batch in dataset\<close> of \<open>train\<close> (lines 102 to 108).\<close>

fun train_batches ::
  "'b gradient_fn \<Rightarrow> optimizer \<Rightarrow> ref list \<Rightarrow> 'b list \<Rightarrow> heap \<Rightarrow> heap" where
  "train_batches gf optimizer lw [] h = h"
| "train_batches gf optimizer lw (batch # rest) h =
     (let (loss, grads) = gf (read_all h lw) batch
      in train_batches gf optimizer lw rest (apply_gradients optimizer (zip grads lw) h))"

text \<open>The outer loop \<open>for epoch in range(EPOCHS)\<close> (line 101).\<close>

fun train_epochs ::
  "'b gradient_fn \<Rightarrow> optimizer \<Rightarrow> ref list \<Rightarrow> 'b list \<Rightarrow> nat \<Rightarrow> heap \<Rightarrow> heap" where
  "train_epochs gf optimizer lw dataset 0 h = h"
| "train_epochs gf optimizer lw dataset (Suc n) h =
     train_epochs gf optimizer lw dataset n (train_batches gf optimizer lw dataset h)"

text \<open>\<open>train\<close> (lines 84 to 110). \<open>tf.print(EPOCHS)\<close> only writes to the console.\<close>

definition train ::
  "config \<Rightarrow> 'b gradient_fn \<Rightarrow> model \<Rightarrow> 'b list \<Rightarrow> ref list \<Rightarrow> optimizer \<Rightarrow> heap
     \<Rightarrow> error + (ref list \<times> heap)" where
  "train cfg gf model dataset global_model_weights optimizer h =
     (let local_model_weights = trainable_variables model in
      case map_structure_assign local_model_weights global_model_weights h of
        Inl e \<Rightarrow> Inl e
      | Inr h1 \<Rightarrow>
          Inr (local_model_weights,
               train_epochs gf optimizer local_model_weights dataset (EPOCHS cfg) h1))"

text \<open>
  \<open>local_train\<close> (lines 114 to 118) is a TFF computation of type
  \<open>(model_weights_type, dataset_type) \<rightarrow> model_weights_type\<close>: it is called on values
  and returns values, and an argument that is not of the declared type is refused. Every
  call runs in a store of its own that holds the argument tensors.
\<close>

definition local_train_store ::
  "config \<Rightarrow> weights \<Rightarrow> 'b gradient_fn \<Rightarrow> weights \<Rightarrow> 'b list
     \<Rightarrow> error + (ref list \<times> ref list \<times> heap)" where
  "local_train_store cfg init gf global_model_weights local_dataset =
     (if shapes global_model_weights \<noteq> model_weights_type init then Inl ShapeMismatchError
      else
        let (gw, h0) = alloc_all global_model_weights [];
            (model, h1) = model_tff init h0;
            optimizer = SGD (LEARNING_RATE cfg)
        in case train cfg gf model local_dataset gw optimizer h1 of
             Inl e \<Rightarrow> Inl e
           | Inr (lw, h2) \<Rightarrow> Inr (gw, lw, h2))"

definition local_train ::
  "config \<Rightarrow> weights \<Rightarrow> 'b gradient_fn \<Rightarrow> weights \<Rightarrow> 'b list \<Rightarrow> error + weights" where
  "local_train cfg init gf global_model_weights local_dataset =
     (case local_train_store cfg init gf global_model_weights local_dataset of
        Inl e \<Rightarrow> Inl e
      | Inr (gw, lw, h) \<Rightarrow> Inr (read_all h lw))"

subsection \<open>The global update\<close>

text \<open>
  \<open>global_model_update\<close> (lines 121 to 126) and \<open>global_update\<close> (lines 130 to 134),
  a TFF computation of type \<open>model_weights_type \<rightarrow> model_weights_type\<close> that refuses an
  argument of another type.
\<close>

definition global_model_update ::
  "model \<Rightarrow> ref list \<Rightarrow> heap \<Rightarrow> error + (ref list \<times> heap)" where
  "global_model_update model aggregated_model_weights h =
     (let global_model_weights = trainable_variables model in
      case map_structure_assign global_model_weights aggregated_model_weights h of
        Inl e \<Rightarrow> Inl e
      | Inr h' \<Rightarrow> Inr (global_model_weights, h'))"

definition global_update :: "weights \<Rightarrow> weights \<Rightarrow> error + weights" where
  "global_update init aggregated_model_weights =
     (if shapes aggregated_model_weights \<noteq> model_weights_type init
      then Inl ShapeMismatchError
      else
        let (aw, h0) = alloc_all aggregated_model_weights [];
            (model, h1) = model_tff init h0
        in case global_model_update model aw h1 of
             Inl e \<Rightarrow> Inl e
           | Inr (gw, h2) \<Rightarrow> Inr (read_all h2 gw))"

subsection \<open>The federated operators\<close>

text \<open>
  A value placed at the clients is the list of its members, one per client; the number of
  clients of a call is the number of datasets it is given.
  \<open>federated_broadcast\<close> hands every client the server's value; \<open>federated_map\<close> applies
  a computation member by member (the first failure ends the call).
\<close>

definition federated_broadcast :: "nat \<Rightarrow> 'a \<Rightarrow> 'a list" where
  "federated_broadcast n x = replicate n x"

fun federated_map :: "('a \<Rightarrow> error + 'c) \<Rightarrow> 'a list \<Rightarrow> error + 'c list" where
  "federated_map f [] = Inr []"
| "federated_map f (x # xs) =
     (case f x of
        Inl e \<Rightarrow> Inl e
      | Inr y \<Rightarrow> (case federated_map f xs of Inl e \<Rightarrow> Inl e | Inr ys \<Rightarrow> Inr (y # ys)))"

text \<open>
  \<open>tff.federated_mean(value)\<close>, called without the optional \<open>weight\<close>: the members are
  summed element by element, starting from zeros of the member type, and the sum is
  multiplied by \<open>1 / count\<close>. The reference executor refuses an empty group
  (``Cannot compute a federated mean over an empty group'').
\<close>

definition zeros :: "nat list \<Rightarrow> weights" where
  "zeros ty = map (\<lambda>n. replicate n 0) ty"

definition add_weights :: "weights \<Rightarrow> weights \<Rightarrow> weights" where
  "add_weights a b = map2 (map2 (+)) a b"

definition scale_weights :: "fl \<Rightarrow> weights \<Rightarrow> weights" where
  "scale_weights c w = map (map (\<lambda>x. c * x)) w"

definition federated_sum :: "nat list \<Rightarrow> weights list \<Rightarrow> weights" where
  "federated_sum ty value = foldl add_weights (zeros ty) value"

definition federated_mean :: "nat list \<Rightarrow> weights list \<Rightarrow> error + weights" where
  "federated_mean ty value =
     (if \<not> list_all (\<lambda>x. shapes x = ty) value then Inl ShapeMismatchError
      else if length value < 1 then Inl AggregationError
      else Inr (scale_weights (Fin (1 / real (length value))) (federated_sum ty value)))"

subsection \<open>One round and the driver\<close>

text \<open>
  \<open>next_fn\<close> (lines 138 to 159), of type
  \<open>(model_weights_type@SERVER, {dataset_type}@CLIENTS) \<rightarrow> model_weights_type@SERVER\<close>:
  weights of another type are refused. The datasets are lists of batches, whose content
  is left open. The function has no other check of its arguments.
\<close>

definition next_fn ::
  "config \<Rightarrow> weights \<Rightarrow> 'b gradient_fn \<Rightarrow> weights \<Rightarrow> 'b list list \<Rightarrow> error + weights" where
  "next_fn cfg init gf global_model_weights local_dataset =
     (if shapes global_model_weights \<noteq> model_weights_type init then Inl ShapeMismatchError
      else
        let model_weights_for_clients =
              federated_broadcast (length local_dataset) global_model_weights
        in case federated_map (\<lambda>(w, d). local_train cfg init gf w d)
                  (zip model_weights_for_clients local_dataset) of
             Inl e \<Rightarrow> Inl e
           | Inr local_model_weights \<Rightarrow>
               (case federated_mean (model_weights_type init) local_model_weights of
                  Inl e \<Rightarrow> Inl e
                | Inr aggregated_model_weights \<Rightarrow>
                    global_update init aggregated_model_weights))"

text \<open>
  The training loop of the main block (lines 169 to 175): the state is the weights alone,
  and the loop variable \<open>r\<close> counts the rounds. Evaluation and plotting are left out.
\<close>

fun run_rounds ::
  "config \<Rightarrow> weights \<Rightarrow> 'b gradient_fn \<Rightarrow> 'b list list \<Rightarrow> nat \<Rightarrow> weights \<Rightarrow> error + weights"
  where
  "run_rounds cfg init gf clients_datasets 0 state = Inr state"
| "run_rounds cfg init gf clients_datasets (Suc r) state =
     (case next_fn cfg init gf state clients_datasets of
        Inl e \<Rightarrow> Inl e
      | Inr state' \<Rightarrow> run_rounds cfg init gf clients_datasets r state')"

subsection \<open>The algorithm of the specification\<close>

text \<open>
  \<open>trainLocal\<close> as the specification words it: starting from a copy of the global
  weights, for each epoch and, within it, for each batch in the order of the dataset,
  one step \<open>localWeights[i] -= learningRate * gradientVector[i]\<close> for every index.
\<close>

definition sgd_step :: "real \<Rightarrow> 'b gradient_fn \<Rightarrow> 'b \<Rightarrow> weights \<Rightarrow> weights" where
  "sgd_step learningRate gradientFn batch localWeights =
     map2 (map2 (\<lambda>w g. w - Fin learningRate * g)) localWeights
       (snd (gradientFn localWeights batch))"

definition trainLocal ::
  "weights \<Rightarrow> 'b list \<Rightarrow> nat \<Rightarrow> real \<Rightarrow> 'b gradient_fn \<Rightarrow> weights" where
  "trainLocal globalWeights localDataset epochs learningRate gradientFn =
     fold (sgd_step learningRate gradientFn) (concat (replicate epochs localDataset))
       globalWeights"

subsection \<open>The weighted aggregation of the specification\<close>

text \<open>
  Modelled from the spec: the aggregation with weights. The program never passes a
  weight: line 155 calls \<open>tff.federated_mean(local_model_weights)\<close>, and the optional
  \<open>weight\<close> parameter is only named in the comment of line 154. The specification
  words it so: the weights are non-negative numbers aligned with the local results, of
  the same length, with a positive sum, and the result is
  \<open>aggregated[i] = sum_c(weights[c] * localResults[c][i]) / sum_c(weights[c])\<close>; zero
  results, or a weight vector of another length or sign, are an AggregationError, and a
  shape mismatch among the local results is a ShapeMismatchError. \<open>combine\<close> is the
  aggregator of the specification: without weights it is the call of the program.
\<close>

fun nonneg_fl :: "fl \<Rightarrow> bool" where
  "nonneg_fl (Fin a) = (0 \<le> a)"
| "nonneg_fl NonFin = False"

fun div_by :: "real \<Rightarrow> fl \<Rightarrow> fl" where
  "div_by d (Fin a) = Fin (a / d)"
| "div_by d NonFin = NonFin"

text \<open>
  Modelled from the spec: the numerator \<open>sum_c(weights[c] * localResults[c][i])\<close> of
  the weighted mean, summed client by client from zeros as the unweighted sum is.
\<close>

definition weighted_sum :: "nat list \<Rightarrow> weights list \<Rightarrow> fl list \<Rightarrow> weights" where
  "weighted_sum ty localResults ws =
     foldl (\<lambda>acc (x, w). add_weights acc (scale_weights w x)) (zeros ty) (zip localResults ws)"

text \<open>
  Modelled from the spec: \<open>combine\<close> with weights, missing from the program. The checks
  come in the order of the unweighted aggregation (shapes, then the number of results),
  followed by those of the weight vector.
\<close>

definition federated_weighted_mean ::
  "nat list \<Rightarrow> weights list \<Rightarrow> fl list \<Rightarrow> error + weights" where
  "federated_weighted_mean ty localResults ws =
     (if \<not> list_all (\<lambda>x. shapes x = ty) localResults then Inl ShapeMismatchError
      else if length localResults < 1 then Inl AggregationError
      else if length ws \<noteq> length localResults \<or> \<not> list_all nonneg_fl ws
      then Inl AggregationError
      else case sum_list ws of
             NonFin \<Rightarrow> Inl AggregationError
           | Fin sum_ws \<Rightarrow>
               if sum_ws \<le> 0 then Inl AggregationError
               else Inr (map (map (div_by sum_ws)) (weighted_sum ty localResults ws)))"

text \<open>
  Modelled from the spec: \<open>combine(localResults, weights)\<close> with its optional weights;
  with the weights omitted it is the call \<open>tff.federated_mean(value)\<close> of the program.
\<close>

definition combine :: "nat list \<Rightarrow> weights list \<Rightarrow> fl list option \<Rightarrow> error + weights" where
  "combine ty localResults weights =
     (case weights of
        None \<Rightarrow> federated_mean ty localResults
      | Some ws \<Rightarrow> federated_weighted_mean ty localResults ws)"

subsection \<open>The mean in binary32 arithmetic\<close>









subsection \<open>Sample networks\<close>

text \<open>
  Two gradient functions for concrete runs. With \<open>constant_gradient\<close> a batch is a number,
  and the gradient has that number in every component. With \<open>diverging_gradient\<close> the
  batches are numbered; batch \<open>0\<close> gives a non-finite loss and a non-finite gradient in
  the first layer, every other batch the gradient \<open>1\<close> in every component.
\<close>

definition constant_gradient :: "real gradient_fn" where
  "constant_gradient w batch = (Fin 0, map (map (\<lambda>_. Fin batch)) w)"

definition diverging_gradient :: "nat gradient_fn" where
  "diverging_gradient w batch =
     (if batch = 0
      then (NonFin,
            case w of [] \<Rightarrow> [] | t # ts \<Rightarrow> map (\<lambda>_. NonFin) t # map (map (\<lambda>_. Fin 0)) ts)
      else (Fin 1, map (map (\<lambda>_. Fin 1)) w))"

text \<open>
  The hyperparameters of the program with one local epoch and learning rate \<open>0.1\<close>, and
  with no local epoch.
\<close>

definition one_epoch :: config where
  "one_epoch = hyperparameters\<lparr>EPOCHS := 1, LEARNING_RATE := 1 / 10\<rparr>"


text \<open>
  A network whose gradient is \<open>1\<close> where the weight is \<open>0\<close> and non-finite elsewhere:
  from zero weights, the first step is finite and the second is not. With two epochs
  over one batch, the gradient turns non-finite in the second epoch.
\<close>

definition exploding_gradient :: "nat gradient_fn" where
  "exploding_gradient w batch = (Fin 0, map (map (\<lambda>x. if x = Fin 0 then Fin 1 else NonFin)) w)"

definition two_epochs :: config where
  "two_epochs = hyperparameters\<lparr>EPOCHS := 2\<rparr>"

section \<open>Properties\<close>

subsection \<open>The store operations\<close>

lemma apply_gradients_length: "length (apply_gradients opt gvs h) = length h"
  by (induction opt gvs h rule: apply_gradients.induct) simp_all

lemma apply_gradients_frame:
  "r \<notin> snd ` set gvs \<Longrightarrow> apply_gradients opt gvs h ! r = h ! r"
  by (induction opt gvs h rule: apply_gradients.induct) auto

lemma apply_gradients_nth:
  "distinct (map snd gvs) \<Longrightarrow> (g, v) \<in> set gvs \<Longrightarrow> v < length h \<Longrightarrow>
     apply_gradients (SGD lr) gvs h ! v = sgd_update lr (h ! v) g"
proof (induction gvs arbitrary: h)
  case Nil
  then show ?case by simp
next
  case (Cons p gvs)
  obtain g' v' where p: "p = (g', v')" by (cases p)
  show ?case
  proof (cases "(g, v) = (g', v')")
    case True
    with Cons.prems p have "v \<notin> snd ` set gvs" by auto
    with True p Cons.prems(3) show ?thesis
      by (simp add: apply_gradients_frame)
  next
    case False
    with Cons.prems p have mem: "(g, v) \<in> set gvs" by auto
    with Cons.prems(1) p have "v \<noteq> v'" by force
    with Cons.IH [OF _ mem, of "h[v' := sgd_update lr (h ! v') g']"] Cons.prems p
    show ?thesis by simp
  qed
qed

lemma read_all_apply_gradients:
  assumes "distinct lw" and "\<forall>r\<in>set lw. r < length h" and "length grads = length lw"
  shows "read_all (apply_gradients (SGD lr) (zip grads lw) h) lw
         = map2 (sgd_update lr) (read_all h lw) grads"
proof (rule nth_equalityI)
  show "length (read_all (apply_gradients (SGD lr) (zip grads lw) h) lw)
        = length (map2 (sgd_update lr) (read_all h lw) grads)"
    using assms(3) by (simp add: read_all_def)
next
  fix i assume "i < length (read_all (apply_gradients (SGD lr) (zip grads lw) h) lw)"
  then have i: "i < length lw" by (simp add: read_all_def)
  have d: "distinct (map snd (zip grads lw))" using assms(1,3) by simp
  have m: "(grads ! i, lw ! i) \<in> set (zip grads lw)"
    using i assms(3) by (auto simp: set_zip)
  have b: "lw ! i < length h" using i assms(2) by simp
  show "read_all (apply_gradients (SGD lr) (zip grads lw) h) lw ! i
        = map2 (sgd_update lr) (read_all h lw) grads ! i"
    using apply_gradients_nth [OF d m b, of lr] i assms(3) by (simp add: read_all_def)
qed

lemma assign_all_frame:
  "assign_all ps h = Inr h' \<Longrightarrow> r \<notin> fst ` set ps \<Longrightarrow> h' ! r = h ! r"
proof (induction ps arbitrary: h)
  case Nil
  then show ?case by simp
next
  case (Cons p ps)
  obtain x y where p: "p = (x, y)" by (cases p)
  from Cons.prems p have ok: "assign_all ps (h[x := h ! y]) = Inr h'"
    by (auto simp: assign_def split: if_splits)
  from Cons.prems p have "r \<noteq> x" and "r \<notin> fst ` set ps" by auto
  with Cons.IH [OF ok] show ?case by simp
qed

lemma assign_all_length:
  "assign_all ps h = Inr h' \<Longrightarrow> length h' = length h"
proof (induction ps arbitrary: h)
  case Nil
  then show ?case by simp
next
  case (Cons p ps)
  obtain x y where p: "p = (x, y)" by (cases p)
  from Cons.prems p have ok: "assign_all ps (h[x := h ! y]) = Inr h'"
    by (auto simp: assign_def split: if_splits)
  with Cons.IH [OF ok] show ?case by simp
qed

lemma assign_all_copies:
  assumes "length xs = length ys" and "distinct xs" and "set xs \<inter> set ys = {}"
    and "\<forall>r\<in>set xs. r < length h"
    and "map (\<lambda>r. length (h ! r)) xs = map (\<lambda>r. length (h ! r)) ys"
  shows "\<exists>h'. assign_all (zip xs ys) h = Inr h' \<and> read_all h' xs = read_all h ys"
  using assms
proof (induction xs ys arbitrary: h rule: list_induct2)
  case Nil
  then show ?case by (simp add: read_all_def)
next
  case (Cons x xs y ys)
  let ?h1 = "h[x := h ! y]"
  from Cons.prems have xy: "length (h ! x) = length (h ! y)" by simp
  from Cons.prems have nx: "x \<notin> set xs" "x \<notin> set ys" "x \<noteq> y" by auto
  have same_xs: "\<forall>r\<in>set xs. ?h1 ! r = h ! r"
    using nx(1) by (metis nth_list_update_neq)
  have same_ys: "\<forall>r\<in>set ys. ?h1 ! r = h ! r"
    using nx(2) by (metis nth_list_update_neq)
  have lens: "map (\<lambda>r. length (?h1 ! r)) xs = map (\<lambda>r. length (?h1 ! r)) ys"
  proof -
    have "map (\<lambda>r. length (?h1 ! r)) xs = map (\<lambda>r. length (h ! r)) xs"
      using same_xs by simp
    also have "\<dots> = map (\<lambda>r. length (h ! r)) ys"
      using Cons.prems by simp
    also have "\<dots> = map (\<lambda>r. length (?h1 ! r)) ys"
      using same_ys by simp
    finally show ?thesis .
  qed
  from Cons.prems have "distinct xs" "set xs \<inter> set ys = {}" "\<forall>r\<in>set xs. r < length ?h1"
    by auto
  from Cons.IH [OF this lens] obtain h' where
    h': "assign_all (zip xs ys) ?h1 = Inr h'" "read_all h' xs = read_all ?h1 ys" by blast
  have "read_all ?h1 ys = read_all h ys"
    unfolding read_all_def using same_ys by simp
  moreover have "h' ! x = h ! y"
  proof -
    have "x \<notin> fst ` set (zip xs ys)"
      using nx(1) by (auto dest: set_zip_leftD)
    from assign_all_frame [OF h'(1) this] Cons.prems show ?thesis by simp
  qed
  ultimately show ?case using h' xy by (simp add: assign_def read_all_def)
qed

subsection \<open>Local training on the store\<close>

lemma shapes_length: "shapes a = shapes b \<Longrightarrow> length a = length b"
  unfolding shapes_def by (rule map_eq_imp_length_eq)

lemma zip_snd_subset: "snd ` set (zip xs ys) \<subseteq> set ys"
  by (auto dest: set_zip_rightD)

lemma train_batches_frame:
  "r \<notin> set lw \<Longrightarrow> train_batches gf opt lw ds h ! r = h ! r"
proof (induction ds arbitrary: h)
  case Nil
  then show ?case by simp
next
  case (Cons b ds)
  have "r \<notin> snd ` set (zip (snd (gf (read_all h lw) b)) lw)"
    using Cons.prems zip_snd_subset by fastforce
  then show ?case
    using Cons by (simp add: case_prod_unfold apply_gradients_frame)
qed

lemma train_batches_length:
  "length (train_batches gf opt lw ds h) = length h"
  by (induction ds arbitrary: h) (simp_all add: case_prod_unfold apply_gradients_length)

lemma train_epochs_frame:
  "r \<notin> set lw \<Longrightarrow> train_epochs gf opt lw ds n h ! r = h ! r"
  by (induction n arbitrary: h) (simp_all add: train_batches_frame)

lemma sgd_update_eq: "sgd_update lr = (\<lambda>v g. map2 (\<lambda>w d. w - Fin lr * d) v g)"
  by (intro ext) (simp add: sgd_update_def)

lemma train_batches_read:
  assumes "distinct lw" and "\<forall>r\<in>set lw. r < length h"
    and "\<forall>w b. shapes (snd (gf w b)) = shapes w"
  shows "read_all (train_batches gf (SGD lr) lw ds h) lw
         = fold (sgd_step lr gf) ds (read_all h lw)"
  using assms(2)
proof (induction ds arbitrary: h)
  case Nil
  then show ?case by simp
next
  case (Cons b ds)
  let ?grads = "snd (gf (read_all h lw) b)"
  let ?h1 = "apply_gradients (SGD lr) (zip ?grads lw) h"
  have len: "length ?grads = length lw"
    using assms(3) shapes_length [of ?grads "read_all h lw"] by (simp add: read_all_def)
  have step: "read_all ?h1 lw = sgd_step lr gf b (read_all h lw)"
    using read_all_apply_gradients [OF assms(1) Cons.prems len, of lr]
    by (simp add: sgd_step_def sgd_update_eq)
  have "\<forall>r\<in>set lw. r < length ?h1"
    using Cons.prems by (simp add: apply_gradients_length)
  from Cons.IH [OF this] step show ?case
    by (simp add: case_prod_unfold)
qed

lemma train_epochs_read:
  assumes "distinct lw" and "\<forall>r\<in>set lw. r < length h"
    and "\<forall>w b. shapes (snd (gf w b)) = shapes w"
  shows "read_all (train_epochs gf (SGD lr) lw ds n h) lw
         = fold (sgd_step lr gf) (concat (replicate n ds)) (read_all h lw)"
  using assms(2)
proof (induction n arbitrary: h)
  case 0
  then show ?case by simp
next
  case (Suc n)
  have "\<forall>r\<in>set lw. r < length (train_batches gf (SGD lr) lw ds h)"
    using Suc.prems by (simp add: train_batches_length)
  from Suc.IH [OF this] show ?case
    using train_batches_read [OF assms(1) Suc.prems assms(3)] by simp
qed

lemma train_frame:
  assumes "train cfg gf model ds gw opt h = Inr (lw, h')"
    and "r \<notin> set (trainable_variables model)"
  shows "h' ! r = h ! r"
proof -
  from assms(1) obtain h1 where
    a: "assign_all (zip (trainable_variables model) gw) h = Inr h1" and
    e: "h' = train_epochs gf opt (trainable_variables model) ds (EPOCHS cfg) h1"
    by (auto simp: train_def map_structure_assign_def Let_def split: if_splits sum.splits)
  have "r \<notin> fst ` set (zip (trainable_variables model) gw)"
    using assms(2) by (auto dest: set_zip_leftD)
  from assign_all_frame [OF a this] e assms(2) show ?thesis
    by (simp add: train_epochs_frame)
qed

lemma read_all_append_left: "read_all (a @ b) [0..<length a] = a"
  unfolding read_all_def by (rule nth_equalityI) (simp_all add: nth_append)

lemma read_all_append_right: "read_all (a @ b) [length a..<length a + length b] = b"
  unfolding read_all_def by (rule nth_equalityI) (simp_all add: nth_append)

lemma model_weights_type_eq: "model_weights_type init = shapes init"
  using read_all_append_left [of init "[]"]
  by (simp add: model_weights_type_def model_init_def model_tff_def alloc_all_def)

text \<open>The store after the assignment of the global weights to a fresh model.\<close>

lemma fresh_model_assigned:
  assumes "shapes g = shapes init"
  shows "\<exists>h. map_structure_assign [length g..<length g + length init] [0..<length g] (g @ init)
               = Inr h
             \<and> length h = length g + length init
             \<and> read_all h [length g..<length g + length init] = g
             \<and> read_all h [0..<length g] = g"
proof -
  let ?lw = "[length g..<length g + length init]" and ?gw = "[0..<length g]"
  have n: "length g = length init" using assms by (rule shapes_length)
  have l1: "map (\<lambda>r. length ((g @ init) ! r)) ?lw = shapes init"
    using read_all_append_right [of g init]
    by (simp add: read_all_def shapes_def flip: map_map [of length "\<lambda>r. (g @ init) ! r", unfolded comp_def])
  have l2: "map (\<lambda>r. length ((g @ init) ! r)) ?gw = shapes g"
    using read_all_append_left [of g init]
    by (simp add: read_all_def shapes_def flip: map_map [of length "\<lambda>r. (g @ init) ! r", unfolded comp_def])
  have "\<exists>h. assign_all (zip ?lw ?gw) (g @ init) = Inr h \<and> read_all h ?lw = read_all (g @ init) ?gw"
    by (rule assign_all_copies) (use n assms l1 l2 in auto)
  then obtain h where h: "assign_all (zip ?lw ?gw) (g @ init) = Inr h"
    "read_all h ?lw = read_all (g @ init) ?gw" by blast
  have "\<forall>r\<in>set ?gw. h ! r = (g @ init) ! r"
  proof
    fix r assume "r \<in> set ?gw"
    then have "r \<notin> fst ` set (zip ?lw ?gw)" by (auto dest: set_zip_leftD)
    from assign_all_frame [OF h(1) this] show "h ! r = (g @ init) ! r" .
  qed
  then have "read_all h ?gw = read_all (g @ init) ?gw"
    by (simp add: read_all_def)
  then have r2: "read_all h ?gw = g"
    by (simp only: read_all_append_left)
  from h(2) have r1: "read_all h ?lw = g"
    by (simp only: read_all_append_left)
  have m: "map_structure_assign ?lw ?gw (g @ init) = Inr h"
    using h(1) n by (simp add: map_structure_assign_def)
  have "length h = length g + length init"
    using assign_all_length [OF h(1)] by simp
  with m r1 r2 show ?thesis by blast
qed

lemma local_train_store_eq:
  assumes "shapes g = shapes init"
  shows "\<exists>h. length h = length g + length init
             \<and> read_all h [length g..<length g + length init] = g
             \<and> read_all h [0..<length g] = g
             \<and> local_train_store cfg init gf g ds
               = Inr ([0..<length g], [length g..<length g + length init],
                      train_epochs gf (SGD (LEARNING_RATE cfg))
                        [length g..<length g + length init] ds (EPOCHS cfg) h)"
proof -
  from fresh_model_assigned [OF assms] obtain h where h:
    "map_structure_assign [length g..<length g + length init] [0..<length g] (g @ init) = Inr h"
    "length h = length g + length init"
    "read_all h [length g..<length g + length init] = g"
    "read_all h [0..<length g] = g" by blast
  show ?thesis
    using h assms
    by (intro exI [of _ h])
       (simp add: local_train_store_def model_weights_type_eq alloc_all_def model_tff_def train_def
          Let_def)
qed

lemma local_train_refines:
  assumes "shapes g = shapes init" and "\<forall>w b. shapes (snd (gf w b)) = shapes w"
  shows "local_train cfg init gf g ds
         = Inr (trainLocal g ds (EPOCHS cfg) (LEARNING_RATE cfg) gf)"
proof -
  let ?lw = "[length g..<length g + length init]"
  from local_train_store_eq [OF assms(1), of cfg gf ds] obtain h where h:
    "length h = length g + length init" "read_all h ?lw = g"
    "local_train_store cfg init gf g ds
       = Inr ([0..<length g], ?lw,
              train_epochs gf (SGD (LEARNING_RATE cfg)) ?lw ds (EPOCHS cfg) h)" by blast
  have b: "\<forall>r\<in>set ?lw. r < length h" using h(1) by simp
  have "distinct ?lw" by simp
  from train_epochs_read [OF this b assms(2), of "LEARNING_RATE cfg" ds "EPOCHS cfg"] h
  show ?thesis by (simp add: local_train_def trainLocal_def)
qed


subsection \<open>Broadcast, map and mean\<close>

lemma federated_map_Inr:
  "\<forall>x\<in>set xs. f x = Inr (g x) \<Longrightarrow> federated_map f xs = Inr (map g xs)"
  by (induction xs) simp_all

lemma broadcast_zip:
  "zip (federated_broadcast (length ds) w) ds = map (Pair w) ds"
  by (simp add: federated_broadcast_def zip_replicate1)

lemma shapes_zeros: "shapes (zeros ty) = ty"
  by (simp add: zeros_def shapes_def comp_def map_idI)

lemma shapes_eq_length: "shapes a = ty \<Longrightarrow> length a = length ty"
  by (metis length_map shapes_def)

lemma shapes_nth:
  "shapes a = ty \<Longrightarrow> l < length ty \<Longrightarrow> length (a ! l) = ty ! l"
  by (auto simp: shapes_def)

lemma shapes_add_weights:
  "shapes a = ty \<Longrightarrow> shapes b = ty \<Longrightarrow> shapes (add_weights a b) = ty"
proof -
  assume a: "shapes a = ty" and b: "shapes b = ty"
  have len: "length a = length ty" "length b = length ty"
    using a b by (simp_all add: shapes_eq_length)
  show ?thesis
    unfolding shapes_def add_weights_def
  proof (rule nth_equalityI)
    show "length (map length (map2 (map2 (+)) a b)) = length ty" using len by simp
  next
    fix l assume "l < length (map length (map2 (map2 (+)) a b))"
    then have l: "l < length ty" using len by simp
    have "length (a ! l) = ty ! l" "length (b ! l) = ty ! l"
      using a b l by (simp_all add: shapes_nth)
    then show "map length (map2 (map2 (+)) a b) ! l = ty ! l"
      using l len by simp
  qed
qed

lemma add_weights_nth:
  assumes "shapes a = ty" and "shapes b = ty" and "l < length ty" and "i < ty ! l"
  shows "add_weights a b ! l ! i = a ! l ! i + b ! l ! i"
proof -
  have "length a = length ty" "length b = length ty"
    using assms by (simp_all add: shapes_eq_length)
  moreover have "length (a ! l) = ty ! l" "length (b ! l) = ty ! l"
    using assms by (simp_all add: shapes_nth)
  ultimately show ?thesis
    using assms(3,4) by (simp add: add_weights_def)
qed

lemma foldl_add_weights:
  assumes "shapes acc = ty" and "\<forall>x\<in>set xs. shapes x = ty"
  shows "shapes (foldl add_weights acc xs) = ty
         \<and> (\<forall>l<length ty. \<forall>i<ty ! l.
              foldl add_weights acc xs ! l ! i = acc ! l ! i + (\<Sum>x\<leftarrow>xs. x ! l ! i))"
  using assms
proof (induction xs arbitrary: acc)
  case Nil
  then show ?case by simp
next
  case (Cons x xs)
  have s: "shapes (add_weights acc x) = ty"
    using Cons.prems by (simp add: shapes_add_weights)
  from Cons.IH [OF s] Cons.prems show ?case
    by (simp add: add_weights_nth add.assoc)
qed

lemma zeros_nth: "l < length ty \<Longrightarrow> i < ty ! l \<Longrightarrow> zeros ty ! l ! i = 0"
  by (simp add: zeros_def)

lemma federated_sum_nth:
  assumes "\<forall>x\<in>set xs. shapes x = ty" and "l < length ty" and "i < ty ! l"
  shows "federated_sum ty xs ! l ! i = (\<Sum>x\<leftarrow>xs. x ! l ! i)"
  using foldl_add_weights [OF shapes_zeros assms(1)] assms(2,3)
  by (simp add: federated_sum_def zeros_nth)

lemma shapes_federated_sum:
  "\<forall>x\<in>set xs. shapes x = ty \<Longrightarrow> shapes (federated_sum ty xs) = ty"
  using foldl_add_weights [OF shapes_zeros] by (simp add: federated_sum_def)

lemma shapes_scale_weights: "shapes (scale_weights c w) = shapes w"
  by (simp add: scale_weights_def shapes_def comp_def)

lemma scale_weights_nth:
  "l < length w \<Longrightarrow> i < length (w ! l) \<Longrightarrow> scale_weights c w ! l ! i = c * w ! l ! i"
  by (simp add: scale_weights_def)

lemma federated_mean_value:
  assumes "xs \<noteq> []" and "\<forall>x\<in>set xs. shapes x = ty"
  shows "federated_mean ty xs
         = Inr (scale_weights (Fin (1 / real (length xs))) (federated_sum ty xs))"
  using assms by (cases xs) (auto simp: federated_mean_def list_all_iff)

lemma global_update_identity:
  assumes "shapes w = model_weights_type init"
  shows "global_update init w = Inr w"
proof -
  have s: "shapes w = shapes init" using assms by (simp add: model_weights_type_eq)
  from fresh_model_assigned [OF s] obtain h where
    "map_structure_assign [length w..<length w + length init] [0..<length w] (w @ init) = Inr h"
    "read_all h [length w..<length w + length init] = w" by blast
  then show ?thesis
    using assms
    by (simp add: global_update_def global_model_update_def alloc_all_def model_tff_def Let_def)
qed

subsection \<open>The steps of the specification's algorithm\<close>

lemma shapes_map2:
  assumes "shapes gr = shapes w"
  shows "shapes (map2 (map2 f) w gr) = shapes w"
  unfolding shapes_def
proof (rule nth_equalityI)
  show "length (map length (map2 (map2 f) w gr)) = length (map length w)"
    using shapes_length [OF assms] by simp
next
  fix l assume "l < length (map length (map2 (map2 f) w gr))"
  then have l: "l < length w" "l < length gr" by simp_all
  have "length (gr ! l) = length (w ! l)"
    using shapes_nth [OF assms, of l] l by (simp add: shapes_def)
  then show "map length (map2 (map2 f) w gr) ! l = map length w ! l"
    using l by simp
qed

lemma shapes_sgd_step:
  "\<forall>w b. shapes (snd (gf w b)) = shapes w \<Longrightarrow> shapes (sgd_step lr gf b w) = shapes w"
  by (simp add: sgd_step_def shapes_map2)

lemma shapes_fold_sgd_step:
  "\<forall>w b. shapes (snd (gf w b)) = shapes w \<Longrightarrow> shapes (fold (sgd_step lr gf) bs w) = shapes w"
  by (induction bs arbitrary: w) (simp_all add: shapes_sgd_step)

lemma shapes_trainLocal:
  "\<forall>w b. shapes (snd (gf w b)) = shapes w \<Longrightarrow> shapes (trainLocal g ds n lr gf) = shapes g"
  by (simp add: trainLocal_def shapes_fold_sgd_step)

lemma sgd_step_nth:
  assumes "shapes (snd (gf w b)) = shapes w" and "l < length w" and "i < length (w ! l)"
  shows "sgd_step lr gf b w ! l ! i = w ! l ! i - Fin lr * snd (gf w b) ! l ! i"
proof -
  have "length (snd (gf w b)) = length w" using assms(1) by (rule shapes_length)
  moreover have "length (snd (gf w b) ! l) = length (w ! l)"
    using shapes_nth [OF assms(1), of l] assms(2) by (simp add: shapes_def)
  ultimately show ?thesis using assms(2,3) by (simp add: sgd_step_def)
qed

lemma minus_NonFin [simp]: "NonFin - x = NonFin"
  by (cases x) simp_all

lemma times_NonFin [simp]: "x * NonFin = NonFin"
  by (cases x) simp_all

lemma minus_NonFin_right [simp]: "x - NonFin = NonFin"
  by (cases x) simp_all

lemma fold_sgd_step_NonFin:
  assumes "\<forall>w b. shapes (snd (gf w b)) = shapes w"
    and "l < length w" and "i < length (w ! l)" and "w ! l ! i = NonFin"
  shows "fold (sgd_step lr gf) bs w ! l ! i = NonFin"
  using assms(2-4)
proof (induction bs arbitrary: w)
  case Nil
  then show ?case by simp
next
  case (Cons b bs)
  let ?w = "sgd_step lr gf b w"
  have s: "shapes ?w = shapes w" using assms(1) by (rule shapes_sgd_step)
  have l: "l < length ?w" using shapes_length [OF s] Cons.prems(1) by simp
  have i: "i < length (?w ! l)"
    using shapes_nth [OF s, of l] Cons.prems(1,2) by (simp add: shapes_def)
  have "?w ! l ! i = NonFin"
    using sgd_step_nth [of gf w b l i lr] assms(1) Cons.prems by simp
  from Cons.IH [OF l i this] show ?case by simp
qed

subsection \<open>One round\<close>

lemma next_fn_value:
  assumes "local_dataset \<noteq> []" and "shapes g = model_weights_type init"
    and "\<forall>d\<in>set local_dataset. local_train cfg init gf g d = Inr (r d)"
    and "\<forall>d\<in>set local_dataset. shapes (r d) = shapes g"
  shows "federated_mean (model_weights_type init) (map r local_dataset)
           = Inr (scale_weights (Fin (1 / real (length local_dataset)))
                    (federated_sum (model_weights_type init) (map r local_dataset)))
         \<and> next_fn cfg init gf g local_dataset
           = Inr (scale_weights (Fin (1 / real (length local_dataset)))
                    (federated_sum (model_weights_type init) (map r local_dataset)))"
proof -
  let ?ty = "model_weights_type init"
  let ?xs = "map r local_dataset"
  let ?agg = "scale_weights (Fin (1 / real (length local_dataset))) (federated_sum ?ty ?xs)"
  have all: "\<forall>x\<in>set ?xs. shapes x = ?ty" using assms(2,4) by simp
  have ne: "?xs \<noteq> []" using assms(1) by simp
  have m: "federated_mean ?ty ?xs = Inr ?agg"
    using federated_mean_value [OF ne all] by simp
  have fm: "federated_map (\<lambda>(w, d). local_train cfg init gf w d) (map (Pair g) local_dataset)
            = Inr (map (\<lambda>p. r (snd p)) (map (Pair g) local_dataset))"
    by (rule federated_map_Inr) (use assms(3) in auto)
  have fm': "federated_map (\<lambda>(w, d). local_train cfg init gf w d)
               (zip (federated_broadcast (length local_dataset) g) local_dataset) = Inr ?xs"
    using fm by (simp add: broadcast_zip comp_def)
  have "shapes ?agg = ?ty"
    using shapes_federated_sum [OF all] by (simp add: shapes_scale_weights)
  then have "global_update init ?agg = Inr ?agg" by (rule global_update_identity)
  with m fm' assms(2) show ?thesis by (simp add: next_fn_def)
qed

subsection \<open>The order of the clients\<close>

lemma map2_commute:
  assumes "\<And>a x y. f (f a x) y = f (f a y) x"
  shows "map2 f (map2 f as xs) ys = map2 f (map2 f as ys) xs"
proof (induction as arbitrary: xs ys)
  case Nil
  then show ?case by simp
next
  case (Cons a as)
  then show ?case
    by (cases xs; cases ys) (simp_all add: assms)
qed

lemma add_weights_commute:
  "add_weights (add_weights a x) y = add_weights (add_weights a y) x"
  unfolding add_weights_def
  by (rule map2_commute, rule map2_commute) (simp add: add.commute add.left_commute)

lemma federated_sum_mset:
  assumes "mset xs = mset ys"
  shows "federated_sum ty xs = federated_sum ty ys"
proof -
  have "fold (\<lambda>x s. add_weights s x) xs = fold (\<lambda>x s. add_weights s x) ys"
    by (rule fold_multiset_equiv) (auto simp: add_weights_commute assms)
  then show ?thesis by (simp add: federated_sum_def foldl_conv_fold)
qed

lemma weighted_sum_mset:
  assumes "mset (zip v ws) = mset (zip v' ws')"
  shows "weighted_sum ty v ws = weighted_sum ty v' ws'"
proof -
  let ?f = "\<lambda>p acc. case p of (x, w) \<Rightarrow> add_weights acc (scale_weights w x)"
  have "fold ?f (zip v ws) = fold ?f (zip v' ws')"
  proof (rule fold_multiset_equiv)
    fix p q :: "weights \<times> fl"
    show "?f p \<circ> ?f q = ?f q \<circ> ?f p"
      by (cases p; cases q) (auto simp: add_weights_commute)
  next
    show "mset (zip v ws) = mset (zip v' ws')" by (rule assms)
  qed
  then show ?thesis
    by (simp add: weighted_sum_def foldl_conv_fold case_prod_unfold)
qed

lemma zip_mset_parts:
  assumes "length v = length ws" and "length v' = length ws'"
    and "mset (zip v ws) = mset (zip v' ws')"
  shows "mset v = mset v'" and "mset ws = mset ws'"
proof -
  have "image_mset fst (mset (zip v ws)) = image_mset fst (mset (zip v' ws'))"
    by (simp only: assms(3))
  then have "mset (map fst (zip v ws)) = mset (map fst (zip v' ws'))"
    by (simp only: mset_map)
  then show "mset v = mset v'" using assms(1,2) by simp
  have "image_mset snd (mset (zip v ws)) = image_mset snd (mset (zip v' ws'))"
    by (simp only: assms(3))
  then have "mset (map snd (zip v ws)) = mset (map snd (zip v' ws'))"
    by (simp only: mset_map)
  then show "mset ws = mset ws'" using assms(1,2) by simp
qed

lemma sum_list_mset_fl:
  fixes ws ws' :: "fl list"
  assumes "mset ws = mset ws'"
  shows "sum_list ws = sum_list ws'"
proof -
  have "sum_list ws = sum_mset (mset ws)" by (simp add: sum_mset_sum_list)
  also have "\<dots> = sum_mset (mset ws')" by (simp only: assms)
  also have "\<dots> = sum_list ws'" by (simp add: sum_mset_sum_list)
  finally show ?thesis .
qed

subsection \<open>The sample networks\<close>

lemma constant_gradient_aligned:
  "\<forall>w b. shapes (snd (constant_gradient w b)) = shapes w"
  by (simp add: constant_gradient_def shapes_def comp_def)

lemma diverging_gradient_aligned:
  "\<forall>w b. shapes (snd (diverging_gradient w b)) = shapes w"
proof (intro allI)
  fix w :: weights and b :: nat
  show "shapes (snd (diverging_gradient w b)) = shapes w"
    by (cases w) (simp_all add: diverging_gradient_def shapes_def comp_def)
qed

lemma exploding_gradient_aligned:
  "\<forall>w b. shapes (snd (exploding_gradient w b)) = shapes w"
  by (simp add: exploding_gradient_def shapes_def comp_def)

section \<open>The claims\<close>

text \<open>
  C1. For a non-empty sequence of client datasets and weights of the model's type, one
  call of \<open>next_fn\<close> performs one round (broadcast, local training on every client,
  mean, global update) and returns the aggregated parameter vector: the mean of the
  clients' local results. The value returned is that vector alone; the state has no
  round field (the rounds are counted by the loop of the main block).
\<close>

theorem next_fn_returns_mean_of_local_results:
  assumes "local_dataset \<noteq> []" and "shapes global_model_weights = model_weights_type init"
    and "\<forall>w b. shapes (snd (gf w b)) = shapes w"
  shows "\<exists>aggregated.
           federated_mean (model_weights_type init)
             (map (\<lambda>d. trainLocal global_model_weights d (EPOCHS cfg) (LEARNING_RATE cfg) gf)
                local_dataset) = Inr aggregated
           \<and> next_fn cfg init gf global_model_weights local_dataset = Inr aggregated"
proof -
  let ?r = "\<lambda>d. trainLocal global_model_weights d (EPOCHS cfg) (LEARNING_RATE cfg) gf"
  have a: "\<forall>d\<in>set local_dataset. local_train cfg init gf global_model_weights d = Inr (?r d)"
    using assms(2,3) by (simp add: model_weights_type_eq local_train_refines)
  have b: "\<forall>d\<in>set local_dataset. shapes (?r d) = shapes global_model_weights"
    using assms(3) by (simp add: shapes_trainLocal)
  from next_fn_value [OF assms(1,2) a b] show ?thesis by blast
qed

theorem next_fn_returns_mean_of_local_results_witness:
  "[[2], [4]] \<noteq> ([] :: real list list) \<and> shapes [[Fin 0]] = model_weights_type [[Fin 0]]
   \<and> federated_mean (model_weights_type [[Fin 0]])
        (map (\<lambda>d. trainLocal [[Fin 0]] d 1 (1 / 10) constant_gradient) [[2], [4]])
      = Inr [[Fin (- (3 / 10))]]
   \<and> next_fn one_epoch [[Fin 0]] constant_gradient [[Fin 0]] [[2], [4]]
      = Inr [[Fin (- (3 / 10))]]"
proof -
  have h1: "[[2], [4]] \<noteq> ([] :: real list list)" by simp
  have h2: "shapes [[Fin 0]] = model_weights_type [[Fin 0]]"
    by (simp add: model_weights_type_eq)
  have v: "federated_mean (model_weights_type [[Fin 0]])
             (map (\<lambda>d. trainLocal [[Fin 0]] d 1 (1 / 10) constant_gradient) [[2], [4]])
           = Inr [[Fin (- (3 / 10))]]"
    by (simp add: model_weights_type_eq federated_mean_def federated_sum_def zeros_def
        add_weights_def scale_weights_def shapes_def zero_fl_def trainLocal_def sgd_step_def
        constant_gradient_def)
  from next_fn_returns_mean_of_local_results
         [OF h1 h2 constant_gradient_aligned, of one_epoch] v
  have "next_fn one_epoch [[Fin 0]] constant_gradient [[Fin 0]] [[2], [4]]
        = Inr [[Fin (- (3 / 10))]]"
    by (simp add: one_epoch_def hyperparameters_def)
  with h1 h2 v show ?thesis by simp
qed

text \<open>
  The claim as stated fails: what \<open>next_fn\<close> returns is the parameter vector, with no
  round number in it. For one client whose dataset has no batch, the state returned is
  the state given; nothing in it has been increased by one.
\<close>

theorem next_fn_round_counterexample:
  "next_fn hyperparameters [[Fin 0]] constant_gradient [[Fin 1]] [[]] = Inr [[Fin 1]]"
  by (simp add: next_fn_def federated_broadcast_def federated_mean_def federated_sum_def
      zeros_def add_weights_def scale_weights_def global_update_def global_model_update_def
      local_train_def local_train_store_def model_weights_type_eq model_tff_def alloc_all_def
      read_all_def shapes_def hyperparameters_def train_def map_structure_assign_def
      assign_def zero_fl_def eval_nat_numeral)

text \<open>
  C2. Without weights, the aggregate of a non-empty sequence of shape-aligned local
  results is their arithmetic mean, index by index:
  \<open>aggregated[l][i] = (1/N) * sum over the clients c of localResults[c][l][i]\<close>.
  In particular the mean of \<open>[1, 1]\<close> and \<open>[3, 3]\<close> is \<open>[2, 2]\<close>.
\<close>

theorem federated_mean_arithmetic_mean:
  assumes "value \<noteq> []" and "\<forall>x\<in>set value. shapes x = ty"
  shows "(\<exists>aggregated. federated_mean ty value = Inr aggregated \<and> shapes aggregated = ty
            \<and> (\<forall>l<length ty. \<forall>i<ty ! l.
                  aggregated ! l ! i
                  = Fin (1 / real (length value)) * (\<Sum>x\<leftarrow>value. x ! l ! i)))
         \<and> federated_mean [2] [[[Fin 1, Fin 1]], [[Fin 3, Fin 3]]] = Inr [[Fin 2, Fin 2]]"
proof -
  let ?s = "federated_sum ty value"
  let ?agg = "scale_weights (Fin (1 / real (length value))) ?s"
  have s: "shapes ?s = ty" using assms(2) by (rule shapes_federated_sum)
  have "federated_mean ty value = Inr ?agg"
    using assms by (rule federated_mean_value)
  moreover have "shapes ?agg = ty" using s by (simp add: shapes_scale_weights)
  moreover have "\<forall>l<length ty. \<forall>i<ty ! l.
      ?agg ! l ! i = Fin (1 / real (length value)) * (\<Sum>x\<leftarrow>value. x ! l ! i)"
  proof (intro allI impI)
    fix l i assume l: "l < length ty" and i: "i < ty ! l"
    have "l < length ?s" using shapes_eq_length [OF s] l by simp
    moreover have "i < length (?s ! l)" using shapes_nth [OF s l] i by simp
    ultimately show "?agg ! l ! i = Fin (1 / real (length value)) * (\<Sum>x\<leftarrow>value. x ! l ! i)"
      using federated_sum_nth [OF assms(2) l i] by (simp add: scale_weights_nth)
  qed
  moreover have "federated_mean [2] [[[Fin 1, Fin 1]], [[Fin 3, Fin 3]]] = Inr [[Fin 2, Fin 2]]"
    by (simp add: federated_mean_def federated_sum_def zeros_def add_weights_def
        scale_weights_def shapes_def zero_fl_def eval_nat_numeral)
  ultimately show ?thesis by blast
qed

theorem federated_mean_arithmetic_mean_witness:
  "[[[Fin 0]], [[Fin 0]], [[Fin 9]]] \<noteq> []
   \<and> list_all (\<lambda>x. shapes x = [1]) [[[Fin 0]], [[Fin 0]], [[Fin 9]]]
   \<and> (\<exists>aggregated. federated_mean [1] [[[Fin 0]], [[Fin 0]], [[Fin 9]]] = Inr aggregated
         \<and> aggregated ! 0 ! 0 = Fin 3)"
proof -
  have h1: "[[[Fin 0]], [[Fin 0]], [[Fin 9]]] \<noteq> []" by simp
  have h2: "\<forall>x\<in>set [[[Fin 0]], [[Fin 0]], [[Fin 9]]]. shapes x = [1]"
    by (simp add: shapes_def)
  from federated_mean_arithmetic_mean [OF h1 h2] obtain aggregated where
    a: "federated_mean [1] [[[Fin 0]], [[Fin 0]], [[Fin 9]]] = Inr aggregated"
    and b: "\<forall>l<length [1::nat]. \<forall>i<[1::nat] ! l.
              aggregated ! l ! i
              = Fin (1 / real (length [[[Fin 0]], [[Fin 0]], [[Fin 9]]]))
                * (\<Sum>x\<leftarrow>[[[Fin 0]], [[Fin 0]], [[Fin 9]]]. x ! l ! i)"
    by blast
  from b have "aggregated ! 0 ! 0 = Fin 3" by simp
  moreover have "list_all (\<lambda>x. shapes x = [1]) [[[Fin 0]], [[Fin 0]], [[Fin 9]]]"
    by (simp add: shapes_def)
  ultimately show ?thesis using a h1 by blast
qed

text \<open>
  C3. \<open>local_train\<close> computes what the algorithm of the specification computes: epochs
  as the outer loop, the batches of the dataset in their order as the inner loop, and
  for each batch one plain SGD step \<open>w[i] - learningRate * gradient[i]\<close> on every index
  (no momentum, decay or clipping); the vector after the last epoch is returned. The
  number of epochs and the learning rate are the hyperparameters \<open>EPOCHS\<close> and
  \<open>LEARNING_RATE\<close>; the gradient has the shape of the weights.
\<close>

theorem local_train_is_minibatch_sgd:
  assumes "shapes global_model_weights = model_weights_type init"
    and "\<forall>w b. shapes (snd (gf w b)) = shapes w"
  shows "local_train cfg init gf global_model_weights local_dataset
         = Inr (trainLocal global_model_weights local_dataset (EPOCHS cfg) (LEARNING_RATE cfg) gf)"
  using assms by (simp add: model_weights_type_eq local_train_refines)

theorem local_train_is_minibatch_sgd_witness:
  "shapes [[Fin 0]] = model_weights_type [[Fin 0]]
   \<and> local_train hyperparameters [[Fin 0]] constant_gradient [[Fin 0]] [1, 2]
     = Inr (trainLocal [[Fin 0]] [1, 2] 5 (2 / 100) constant_gradient)
   \<and> trainLocal [[Fin 0]] [1, 2] 5 (2 / 100) constant_gradient = [[Fin (- (3 / 10))]]"
proof -
  have h: "shapes [[Fin 0]] = model_weights_type [[Fin 0]]"
    by (simp add: model_weights_type_eq)
  have v: "trainLocal [[Fin 0]] [1, 2] 5 (2 / 100) constant_gradient = [[Fin (- (3 / 10))]]"
    by (simp add: trainLocal_def sgd_step_def constant_gradient_def eval_nat_numeral)
  from local_train_is_minibatch_sgd [OF h constant_gradient_aligned, of hyperparameters "[1, 2]"]
  have "local_train hyperparameters [[Fin 0]] constant_gradient [[Fin 0]] [1, 2]
        = Inr (trainLocal [[Fin 0]] [1, 2] 5 (2 / 100) constant_gradient)"
    by (simp add: hyperparameters_def)
  with h v show ?thesis by simp
qed

text \<open>
  C4. \<open>local_train\<close> does not change the global weights it is given: in the store at
  the end of the call, the tensors of the argument hold what they held at the start,
  whatever the dataset, the number of epochs, the learning rate and the gradients. The
  model that is trained is a new one, whose variables are other objects than the
  argument's tensors; \<open>assign\<close> copies the values into them, all updates go there,
  and the result is read from them.
\<close>

theorem local_train_keeps_global_model_weights:
  assumes "local_train_store cfg init gf global_model_weights local_dataset = Inr (gw, lw, h)"
  shows "read_all h gw = global_model_weights \<and> set gw \<inter> set lw = {}
         \<and> local_train cfg init gf global_model_weights local_dataset = Inr (read_all h lw)"
proof -
  let ?g = global_model_weights
  let ?lw = "[length ?g..<length ?g + length init]"
  have s: "shapes ?g = shapes init"
    using assms by (auto simp: local_train_store_def model_weights_type_eq split: if_splits)
  from local_train_store_eq [OF s, of cfg gf local_dataset] assms obtain h0 where
    r: "read_all h0 [0..<length ?g] = ?g" and
    gw: "gw = [0..<length ?g]" and lw: "lw = ?lw" and
    h: "h = train_epochs gf (SGD (LEARNING_RATE cfg)) ?lw local_dataset (EPOCHS cfg) h0"
    by auto
  have "\<forall>r\<in>set gw. h ! r = h0 ! r"
    using gw h by (simp add: train_epochs_frame)
  then have "read_all h gw = read_all h0 gw" by (simp add: read_all_def)
  moreover have "local_train cfg init gf ?g local_dataset = Inr (read_all h lw)"
    using assms by (simp add: local_train_def)
  ultimately show ?thesis using r gw lw by auto
qed

theorem local_train_keeps_global_model_weights_witness:
  "local_train_store one_epoch [[Fin 5]] constant_gradient [[Fin 0]] [2]
     = Inr ([0], [1], [[Fin 0], [Fin (- (1 / 5))]])
   \<and> read_all [[Fin 0], [Fin (- (1 / 5))]] [0] = [[Fin 0]] \<and> set [0::nat] \<inter> set [1] = {}"
proof -
  have run: "local_train_store one_epoch [[Fin 5]] constant_gradient [[Fin 0]] [2]
             = Inr ([0], [1], [[Fin 0], [Fin (- (1 / 5))]])"
    by (simp add: local_train_store_def model_weights_type_eq shapes_def alloc_all_def
        model_tff_def train_def map_structure_assign_def assign_def one_epoch_def
        hyperparameters_def read_all_def constant_gradient_def sgd_update_def)
  from local_train_keeps_global_model_weights [OF run] run show ?thesis by simp
qed




text \<open>
  C6. With an empty sequence of client datasets, \<open>next_fn\<close> fails and returns no state,
  but never with a ConfigurationError: it has no check of the client set. For weights
  of the model's type the round runs on to the aggregation, which fails as a mean over
  an empty group does (AggregationError).
\<close>

theorem next_fn_no_clients:
  "(\<exists>e. next_fn cfg init gf global_model_weights [] = Inl e \<and> e \<noteq> ConfigurationError)
   \<and> (shapes global_model_weights = model_weights_type init
        \<longrightarrow> next_fn cfg init gf global_model_weights [] = Inl AggregationError)"
  by (simp add: next_fn_def federated_broadcast_def federated_mean_def)

theorem next_fn_no_clients_witness:
  "shapes [[Fin 3, Fin 4]] = model_weights_type [[Fin 0, Fin 0]]
   \<and> next_fn one_epoch [[Fin 0, Fin 0]] constant_gradient [[Fin 3, Fin 4]] []
     = Inl AggregationError"
proof -
  have h: "shapes [[Fin 3, Fin 4]] = model_weights_type [[Fin 0, Fin 0]]"
    by (simp add: model_weights_type_eq shapes_def)
  from next_fn_no_clients [of one_epoch "[[Fin 0, Fin 0]]" constant_gradient "[[Fin 3, Fin 4]]"] h
  show ?thesis by simp
qed

theorem next_fn_no_clients_counterexample:
  "next_fn hyperparameters [[Fin 0]] constant_gradient [[Fin 1]] [] = Inl AggregationError
   \<and> next_fn hyperparameters [[Fin 0]] constant_gradient [[Fin 1]] [] \<noteq> Inl ConfigurationError"
  by (simp add: next_fn_def federated_broadcast_def federated_mean_def model_weights_type_eq
      shapes_def)

text \<open>
  C7. \<open>combine\<close> on an empty sequence of local results fails with AggregationError and
  returns no parameter vector: \<open>federated_mean\<close> over an empty group of clients is the
  aggregation failure, whatever the member type; and it fails in this way on no other
  input.
\<close>

theorem federated_mean_empty_group:
  "federated_mean ty [] = Inl AggregationError
   \<and> federated_mean ty [] \<noteq> Inr aggregated
   \<and> (federated_mean ty value = Inl AggregationError) = (value = [])"
proof -
  have "(federated_mean ty value = Inl AggregationError) = (value = [])"
    by (cases "value") (simp_all add: federated_mean_def)
  then show ?thesis by (simp add: federated_mean_def)
qed

text \<open>
  C8. The aggregate does not depend on the order of the clients: for local results with
  aligned weights, permuting the pairs of a local result and its weight gives the same
  result, with the weights and without them (in exact arithmetic).
\<close>

theorem combine_permutation:
  assumes "length localResults = length ws" and "length localResults' = length ws'"
    and "mset (zip localResults ws) = mset (zip localResults' ws')"
  shows "combine ty localResults (Some ws) = combine ty localResults' (Some ws')
         \<and> combine ty localResults None = combine ty localResults' None"
proof -
  have v: "mset localResults = mset localResults'" and w: "mset ws = mset ws'"
    using assms by (rule zip_mset_parts)+
  have sv: "set localResults = set localResults'" using v by (rule mset_eq_setD)
  have lv: "length localResults = length localResults'" using v by (rule mset_eq_length)
  have sw: "set ws = set ws'" using w by (rule mset_eq_setD)
  have lw: "length ws = length ws'" using w by (rule mset_eq_length)
  have tw: "sum_list ws = sum_list ws'" using w by (rule sum_list_mset_fl)
  have s: "weighted_sum ty localResults ws = weighted_sum ty localResults' ws'"
    using assms(3) by (rule weighted_sum_mset)
  have "federated_weighted_mean ty localResults ws = federated_weighted_mean ty localResults' ws'"
    by (simp add: federated_weighted_mean_def list_all_iff sv lv sw lw tw s split: fl.split)
  moreover have "federated_mean ty localResults = federated_mean ty localResults'"
    using federated_sum_mset [OF v, of ty] by (simp add: federated_mean_def list_all_iff sv lv)
  ultimately show ?thesis by (simp add: combine_def)
qed

theorem combine_permutation_witness:
  "combine [1] [[[Fin 0]], [[Fin 4]], [[Fin 9]]] (Some [Fin 1, Fin 1, Fin 2])
   = combine [1] [[[Fin 9]], [[Fin 0]], [[Fin 4]]] (Some [Fin 2, Fin 1, Fin 1])
   \<and> combine [1] [[[Fin 0]], [[Fin 4]], [[Fin 9]]] None
     = combine [1] [[[Fin 9]], [[Fin 0]], [[Fin 4]]] None
   \<and> combine [1] [[[Fin 0]], [[Fin 4]], [[Fin 9]]] (Some [Fin 1, Fin 1, Fin 2])
     = Inr [[Fin (11 / 2)]]"
proof -
  have h1: "length [[[Fin 0]], [[Fin 4]], [[Fin 9]]] = length [Fin 1, Fin 1, Fin 2]" by simp
  have h2: "length [[[Fin 9]], [[Fin 0]], [[Fin 4]]] = length [Fin 2, Fin 1, Fin 1]" by simp
  have h3: "mset (zip [[[Fin 0]], [[Fin 4]], [[Fin 9]]] [Fin 1, Fin 1, Fin 2])
            = mset (zip [[[Fin 9]], [[Fin 0]], [[Fin 4]]] [Fin 2, Fin 1, Fin 1])"
    by simp
  have v: "combine [1] [[[Fin 0]], [[Fin 4]], [[Fin 9]]] (Some [Fin 1, Fin 1, Fin 2])
           = Inr [[Fin (11 / 2)]]"
    by (simp add: combine_def federated_weighted_mean_def weighted_sum_def zeros_def
        add_weights_def scale_weights_def shapes_def zero_fl_def)
  from combine_permutation [OF h1 h2 h3, of "[1]"] v show ?thesis by simp
qed

text \<open>
  C9. \<open>train\<close> does not look at the loss or at the gradient: a non-finite gradient is
  applied like any other. When the gradient of some batch, in any epoch, is non-finite
  at an index, the call raises nothing, runs all the remaining batches and epochs, and
  returns weights that are non-finite at that index. Here \<open>before\<close> are the batches
  processed before that batch and \<open>rest\<close> those processed after it, over all epochs.
\<close>

theorem non_finite_gradient_is_applied:
  assumes "shapes g = model_weights_type init"
    and "\<forall>w b. shapes (snd (gf w b)) = shapes w"
    and "concat (replicate (EPOCHS cfg) local_dataset) = before @ batch # rest"
    and "l < length g" and "i < length (g ! l)"
    and "snd (gf (fold (sgd_step (LEARNING_RATE cfg) gf) before g) batch) ! l ! i = NonFin"
  shows "\<exists>w. local_train cfg init gf g local_dataset = Inr w
             \<and> w = trainLocal g local_dataset (EPOCHS cfg) (LEARNING_RATE cfg) gf
             \<and> w ! l ! i = NonFin"
proof -
  let ?lr = "LEARNING_RATE cfg"
  let ?w0 = "fold (sgd_step ?lr gf) before g"
  let ?w1 = "sgd_step ?lr gf batch ?w0"
  have s0: "shapes ?w0 = shapes g" using assms(2) by (rule shapes_fold_sgd_step)
  have l0: "l < length ?w0" using shapes_length [OF s0] assms(4) by simp
  have i0: "i < length (?w0 ! l)"
    using shapes_nth [OF s0, of l] assms(4,5) by (simp add: shapes_def)
  have s1: "shapes ?w1 = shapes ?w0" using assms(2) by (rule shapes_sgd_step)
  have l1: "l < length ?w1" using shapes_length [OF s1] l0 by simp
  have i1: "i < length (?w1 ! l)"
    using shapes_nth [OF s1, of l] l0 i0 by (simp add: shapes_def)
  have p: "?w1 ! l ! i = NonFin"
    using sgd_step_nth [of gf ?w0 batch l i ?lr] assms(2,6) l0 i0 by simp
  have e: "trainLocal g local_dataset (EPOCHS cfg) ?lr gf = fold (sgd_step ?lr gf) rest ?w1"
    by (simp add: trainLocal_def assms(3))
  have "fold (sgd_step ?lr gf) rest ?w1 ! l ! i = NonFin"
    using assms(2) l1 i1 p by (rule fold_sgd_step_NonFin)
  then have "trainLocal g local_dataset (EPOCHS cfg) ?lr gf ! l ! i = NonFin"
    by (simp only: e)
  moreover have "local_train cfg init gf g local_dataset
                 = Inr (trainLocal g local_dataset (EPOCHS cfg) ?lr gf)"
    using assms(1,2) by (simp add: model_weights_type_eq local_train_refines)
  ultimately show ?thesis by simp
qed

theorem non_finite_gradient_is_applied_witness:
  "shapes [[Fin 0]] = model_weights_type [[Fin 0]]
   \<and> concat (replicate (EPOCHS two_epochs) [7]) = [7] @ 7 # ([] :: nat list)
   \<and> snd (exploding_gradient [[Fin 0]] 7) ! 0 ! 0 = Fin 1
   \<and> snd (exploding_gradient
             (fold (sgd_step (LEARNING_RATE two_epochs) exploding_gradient) [7] [[Fin 0]]) 7)
       ! 0 ! 0 = NonFin
   \<and> (\<exists>w. local_train two_epochs [[Fin 0]] exploding_gradient [[Fin 0]] [7] = Inr w
            \<and> w ! 0 ! 0 = NonFin)"
proof -
  have h1: "shapes [[Fin 0]] = model_weights_type [[Fin 0]]"
    by (simp add: model_weights_type_eq)
  have h3: "concat (replicate (EPOCHS two_epochs) [7]) = [7] @ 7 # ([] :: nat list)"
    by (simp add: two_epochs_def eval_nat_numeral)
  have h4: "0 < length [[Fin 0]]" by simp
  have h5: "0 < length ([[Fin 0]] ! 0)" by simp
  have h6: "snd (exploding_gradient
                   (fold (sgd_step (LEARNING_RATE two_epochs) exploding_gradient) [7] [[Fin 0]]) 7)
            ! 0 ! 0 = NonFin"
    by (simp add: exploding_gradient_def sgd_step_def two_epochs_def hyperparameters_def)
  have f: "snd (exploding_gradient [[Fin 0]] 7) ! 0 ! 0 = Fin 1"
    by (simp add: exploding_gradient_def)
  from non_finite_gradient_is_applied [OF h1 exploding_gradient_aligned h3 h4 h5 h6]
  have "\<exists>w. local_train two_epochs [[Fin 0]] exploding_gradient [[Fin 0]] [7] = Inr w
             \<and> w ! 0 ! 0 = NonFin"
    by auto
  with h1 h3 h6 f show ?thesis by simp
qed

text \<open>
  The claim as stated fails: the first batch has a non-finite loss and a non-finite
  gradient in the first layer, and the call returns weights; the step of the second
  batch shows in the second layer.
\<close>

theorem non_finite_gradient_counterexample:
  "fst (diverging_gradient [[Fin 0], [Fin 0]] 0) = NonFin
   \<and> snd (diverging_gradient [[Fin 0], [Fin 0]] 0) = [[NonFin], [Fin 0]]
   \<and> local_train one_epoch [[Fin 0], [Fin 0]] diverging_gradient [[Fin 0], [Fin 0]] [0, 1]
     = Inr [[NonFin], [Fin (- (1 / 10))]]
   \<and> local_train one_epoch [[Fin 0], [Fin 0]] diverging_gradient [[Fin 0], [Fin 0]] [0, 1]
     \<noteq> Inl NumericError"
  by (simp add: local_train_def local_train_store_def model_weights_type_eq model_tff_def
      alloc_all_def read_all_def shapes_def one_epoch_def hyperparameters_def train_def
      map_structure_assign_def assign_def diverging_gradient_def sgd_update_def)

text \<open>
  C10. The global update changes nothing: for aggregated weights of the model's type,
  \<open>global_update\<close> assigns them to the variables of a fresh model and returns the values
  of these variables, which are the aggregated weights.
\<close>

theorem global_update_returns_aggregated:
  assumes "shapes aggregated_model_weights = model_weights_type init"
  shows "global_update init aggregated_model_weights = Inr aggregated_model_weights"
  using assms by (rule global_update_identity)

theorem global_update_returns_aggregated_witness:
  "shapes [[Fin 2, Fin 2], [Fin 7]] = model_weights_type [[Fin 0, Fin 0], [Fin 0]]
   \<and> global_update [[Fin 0, Fin 0], [Fin 0]] [[Fin 2, Fin 2], [Fin 7]]
     = Inr [[Fin 2, Fin 2], [Fin 7]]"
proof -
  have h: "shapes [[Fin 2, Fin 2], [Fin 7]] = model_weights_type [[Fin 0, Fin 0], [Fin 0]]"
    by (simp add: model_weights_type_eq shapes_def)
  from global_update_returns_aggregated [OF h] h show ?thesis by simp
qed

end
